theory Spec2Isabelle
  imports Main "HOL-Library.Sublist" "HOL-Library.AList"
begin

section \<open>Media proxy worker: routing of /uploads/ requests to the repository mirror\<close>

text \<open>
  The worker is one request handler (\<open>fetch\<close> in \<open>worker.js\<close>) with two helpers,
  \<open>getBaseUrl\<close> and \<open>getGitHubPath\<close>. JavaScript strings are modelled as \<open>string\<close>,
  header bags as association lists (an object's own properties, in insertion order), the
  platform classes \<open>URL\<close>, \<open>Request\<close> and \<open>Response\<close> as records, a thrown exception as
  the left injection of a sum, and the outbound network as a function that answers the
  n-th outbound request either with a response or with an error.
\<close>

subsection \<open>Strings\<close>

definition startsWith :: "string \<Rightarrow> string \<Rightarrow> bool" where
  "startsWith s p = prefix p s"

definition endsWith :: "string \<Rightarrow> string \<Rightarrow> bool" where
  "endsWith s p = suffix p s"

definition substring :: "string \<Rightarrow> nat \<Rightarrow> string" where
  "substring s n = drop n s"

subsection \<open>Configuration\<close>

definition GITHUB_USERNAME :: string where
  "GITHUB_USERNAME = ''crabvn''"

definition GITHUB_REPO :: string where
  "GITHUB_REPO = ''uniquepetswiki-uploads''"

definition GITHUB_BRANCH :: string where
  "GITHUB_BRANCH = ''main''"

definition HOSTING_METHOD :: string where
  "HOSTING_METHOD = ''jsdelivr''"

definition BASE_URLS :: "(string \<times> string) list" where
  "BASE_URLS =
     [(''raw'', ''https://raw.githubusercontent.com/'' @ GITHUB_USERNAME @ ''/'' @ GITHUB_REPO
                 @ ''/'' @ GITHUB_BRANCH),
      (''pages'', ''https://'' @ GITHUB_USERNAME @ ''.github.io/'' @ GITHUB_REPO),
      (''jsdelivr'', ''https://cdn.jsdelivr.net/gh/'' @ GITHUB_USERNAME @ ''/'' @ GITHUB_REPO
                 @ ''@'' @ GITHUB_BRANCH)]"

text \<open>
  \<open>BASE_URLS[HOSTING_METHOD] || BASE_URLS.jsdelivr\<close>: a missing property and the empty
  string are both falsy, so both select the jsDelivr entry.
\<close>

definition js_or :: "string option \<Rightarrow> string option \<Rightarrow> string option" where
  "js_or a b = (case a of None \<Rightarrow> b | Some s \<Rightarrow> if s = [] then b else Some s)"

definition getBaseUrl :: "string option" where
  "getBaseUrl = js_or (map_of BASE_URLS HOSTING_METHOD) (map_of BASE_URLS ''jsdelivr'')"

subsection \<open>Path translation\<close>

text \<open>\<open>path.replace(/^\/uploads\//, '')\<close>: the anchored literal is removed once, at the start.\<close>

definition getGitHubPath :: "string \<Rightarrow> string" where
  "getGitHubPath path =
     (if startsWith path ''/uploads/'' then drop (length ''/uploads/'') path else path)"

subsection \<open>Platform values: errors, URLs, requests and responses\<close>

datatype error = Error (message: string)

text \<open>
  The \<open>URL\<close> class, restricted to absolute http(s) URLs: the constructor throws on a string
  without such a scheme or with an empty authority, and otherwise splits the string at the
  first \<open>/\<close>, \<open>?\<close> and \<open>#\<close>. The platform's percent-encoding and dot-segment
  normalisation are not part of the model.
\<close>

record URL =
  origin :: string
  pathname :: string
  query :: "string option"
  fragment :: "string option"

definition pathname_of :: "string \<Rightarrow> string" where
  "pathname_of r =
     (let path = takeWhile (\<lambda>c. c \<notin> set ''?#'') r in if path = [] then ''/'' else path)"

definition query_of :: "string \<Rightarrow> string option" where
  "query_of r =
     (let r2 = dropWhile (\<lambda>c. c \<notin> set ''?#'') r
      in if startsWith r2 ''?'' then Some (takeWhile (\<lambda>c. c \<noteq> CHR ''#'') (drop 1 r2))
         else None)"

definition fragment_of :: "string \<Rightarrow> string option" where
  "fragment_of r =
     (let r3 = dropWhile (\<lambda>c. c \<noteq> CHR ''#'') r in if r3 = [] then None else Some (drop 1 r3))"

definition parse_after_scheme :: "string \<Rightarrow> string \<Rightarrow> error + URL" where
  "parse_after_scheme scheme rest =
     (let authority = takeWhile (\<lambda>c. c \<notin> set ''/?#'') rest;
          rest1 = dropWhile (\<lambda>c. c \<notin> set ''/?#'') rest
      in if authority = [] then Inl (Error ''Invalid URL'')
         else Inr \<lparr>origin = scheme @ authority, pathname = pathname_of rest1,
                   query = query_of rest1, fragment = fragment_of rest1\<rparr>)"

definition new_URL :: "string \<Rightarrow> error + URL" where
  "new_URL s =
     (if startsWith s ''https://'' then parse_after_scheme ''https://'' (drop 8 s)
      else if startsWith s ''http://'' then parse_after_scheme ''http://'' (drop 7 s)
      else Inl (Error ''Invalid URL''))"

text \<open>The \<open>search\<close> getter: empty for a missing or empty query, else \<open>?\<close> and the query.\<close>

definition search :: "URL \<Rightarrow> string" where
  "search u = (case query u of None \<Rightarrow> [] | Some q \<Rightarrow> if q = [] then [] else ''?'' @ q)"

text \<open>
  The \<open>search\<close> setter: the empty string removes the query, any other value becomes the
  query after one leading \<open>?\<close> is dropped.
\<close>

definition set_search :: "URL \<Rightarrow> string \<Rightarrow> URL" where
  "set_search u v =
     (if v = [] then u\<lparr>query := None\<rparr>
      else u\<lparr>query := Some (if startsWith v ''?'' then drop 1 v else v)\<rparr>)"

definition toString :: "URL \<Rightarrow> string" where
  "toString u =
     origin u @ pathname u
       @ (case query u of None \<Rightarrow> [] | Some q \<Rightarrow> ''?'' @ q)
       @ (case fragment u of None \<Rightarrow> [] | Some f \<Rightarrow> ''#'' @ f)"

text \<open>
  Requests and responses share a header list and an optional body (\<open>None\<close> is \<open>null\<close>).
  The header list of an incoming message is what iterating its \<open>Headers\<close> yields; the
  header list of a message the worker constructs is the initialiser object it passes.
\<close>

record Message =
  headers :: "(string \<times> string) list"
  body :: "string option"

record Request = Message +
  "method" :: string
  url :: string

record Response = Message +
  status :: nat
  statusText :: string

text \<open>\<open>Object.fromEntries\<close>: a later entry for a key replaces the value of the earlier one.\<close>

definition fromEntries :: "(string \<times> string) list \<Rightarrow> (string \<times> string) list" where
  "fromEntries es = foldl (\<lambda>obj (k, v). AList.update k v obj) [] es"

text \<open>
  The outbound \<open>fetch\<close> of the platform: the answer to the request issued as number \<open>n\<close>
  (counting from 0) is a response, or a rejection with an error.
\<close>

type_synonym network = "nat \<Rightarrow> Request \<Rightarrow> error + Response"

subsection \<open>The request handler\<close>

definition targetUrlString :: "string \<Rightarrow> string \<Rightarrow> string" where
  "targetUrlString baseUrl githubPath =
     (let cleanPath = (if startsWith githubPath ''/'' then substring githubPath 1 else githubPath)
      in if endsWith baseUrl ''/'' then baseUrl @ cleanPath else baseUrl @ ''/'' @ cleanPath)"

definition altUrlString :: "string \<Rightarrow> string \<Rightarrow> string" where
  "altUrlString baseUrl path =
     (let altPath = ''wp-content'' @ path;
          cleanAltPath = (if startsWith altPath ''/'' then substring altPath 1 else altPath)
      in if endsWith baseUrl ''/'' then baseUrl @ cleanAltPath
         else baseUrl @ ''/'' @ cleanAltPath)"

text \<open>\<open>new URL(targetUrlString)\<close>, then the assignment to \<open>search\<close>, then \<open>toString()\<close>.\<close>

definition targetUrl :: "string \<Rightarrow> string \<Rightarrow> string \<Rightarrow> error + string" where
  "targetUrl baseUrl githubPath srch =
     (case new_URL (targetUrlString baseUrl githubPath) of
        Inl e \<Rightarrow> Inl e
      | Inr t \<Rightarrow> Inr (toString (set_search t srch)))"

definition altUrl :: "string \<Rightarrow> string \<Rightarrow> string \<Rightarrow> error + string" where
  "altUrl baseUrl path srch =
     (case new_URL (altUrlString baseUrl path) of
        Inl e \<Rightarrow> Inl e
      | Inr a \<Rightarrow> Inr (toString (set_search a srch)))"

definition forwardHeaders :: "(string \<times> string) list \<Rightarrow> (string \<times> string) list" where
  "forwardHeaders hs =
     AList.update ''User-Agent'' ''Mozilla/5.0 (compatible; CloudflareWorker/1.0)''
       (fromEntries hs)"

definition corsHeaders :: "(string \<times> string) list \<Rightarrow> (string \<times> string) list" where
  "corsHeaders hs =
     AList.update ''Cache-Control'' ''public, max-age=31536000, immutable''
       (AList.update ''Access-Control-Allow-Methods'' ''GET, HEAD, OPTIONS''
         (AList.update ''Access-Control-Allow-Origin'' ''*'' (fromEntries hs)))"

text \<open>\<open>new Response(r.body, {status, statusText, headers: {...r.headers, CORS, cache}})\<close>.\<close>

definition relay :: "Response \<Rightarrow> Response" where
  "relay r = \<lparr>headers = corsHeaders (headers r), body = body r,
              status = status r, statusText = statusText r\<rparr>"

text \<open>
  \<open>new Request(targetUrl.toString(), {method, headers: {...headers, 'User-Agent'}, body})\<close>
  and the retry's \<open>new Request(altUrl.toString(), {method, headers})\<close>, which has no body.
\<close>

definition newRequest :: "Request \<Rightarrow> string \<Rightarrow> Request" where
  "newRequest request href =
     \<lparr>headers = forwardHeaders (headers request), body = body request,
      method = method request, url = href\<rparr>"

definition altRequest :: "Request \<Rightarrow> string \<Rightarrow> Request" where
  "altRequest request href =
     \<lparr>headers = forwardHeaders (headers request), body = None,
      method = method request, url = href\<rparr>"

text \<open>
  The body of the \<open>try\<close> block. The result is the value returned or the exception thrown
  inside the block, together with the outbound requests issued, in order.
\<close>

definition try_block ::
  "network \<Rightarrow> Request \<Rightarrow> URL \<Rightarrow> string \<Rightarrow> Request \<Rightarrow> (error + Response) \<times> Request list" where
  "try_block net request u baseUrl req =
     (case net 0 req of
        Inl e \<Rightarrow> (Inl e, [req])
      | Inr response \<Rightarrow>
          if status response = 404 then
            (case altUrl baseUrl (pathname u) (search u) of
               Inl e \<Rightarrow> (Inl e, [req])
             | Inr altHref \<Rightarrow>
                 (case net 1 (altRequest request altHref) of
                    Inl e \<Rightarrow> (Inl e, [req, altRequest request altHref])
                  | Inr altResponse \<Rightarrow>
                      if status altResponse = 200
                      then (Inr (relay altResponse), [req, altRequest request altHref])
                      else (Inr (relay response), [req, altRequest request altHref])))
          else (Inr (relay response), [req]))"

text \<open>
  The handler. \<open>Inl\<close> is an exception that leaves the handler, \<open>Inr\<close> the response it
  returns; the second component lists the outbound requests issued. The \<open>catch\<close> clause
  turns whatever the \<open>try\<close> block throws into a 500 response. The parameter \<open>env\<close> of
  the source is never read and is left out; constructing a \<open>Request\<close> or a \<open>Response\<close>
  is the construction of the record.
\<close>

definition fetch :: "network \<Rightarrow> Request \<Rightarrow> (error + Response) \<times> Request list" where
  "fetch net request =
     (case new_URL (url request) of
        Inl e \<Rightarrow> (Inl e, [])
      | Inr u \<Rightarrow>
          if \<not> startsWith (pathname u) ''/uploads/''
          then (Inr \<lparr>headers = [], body = Some ''Not Found'', status = 404, statusText = []\<rparr>, [])
          else
            (case getBaseUrl of
               None \<Rightarrow> (Inl (Error ''baseUrl is undefined''), [])
             | Some baseUrl \<Rightarrow>
                 (case targetUrl baseUrl (getGitHubPath (pathname u)) (search u) of
                    Inl e \<Rightarrow> (Inl e, [])
                  | Inr href \<Rightarrow>
                      (case try_block net request u baseUrl (newRequest request href) of
                         (Inl e, out) \<Rightarrow>
                           (Inr \<lparr>headers = [],
                                 body = Some (''Error fetching from GitHub: '' @ message e),
                                 status = 500, statusText = []\<rparr>, out)
                       | (Inr r, out) \<Rightarrow> (Inr r, out)))))"

subsection \<open>Example requests and networks\<close>

definition uploads_request :: Request where
  "uploads_request =
     \<lparr>headers = [(''accept'', ''image/*''), (''user-agent'', ''curl/8.0'')], body = None,
      method = ''GET'', url = ''https://media.uniquepetswiki.com/uploads/2020/01/a.jpg?v=2''\<rparr>"

definition index_request :: Request where
  "index_request =
     \<lparr>headers = [], body = None, method = ''GET'',
      url = ''https://media.uniquepetswiki.com/index.html''\<rparr>"

definition not_found_response :: Response where
  "not_found_response =
     \<lparr>headers = [(''cache-control'', ''no-cache''), (''content-type'', ''text/plain'')],
      body = Some ''missing'', status = 404, statusText = ''Not Found''\<rparr>"

definition image_response :: Response where
  "image_response =
     \<lparr>headers = [(''content-type'', ''image/jpeg'')],
      body = Some ''JPEG'', status = 200, statusText = ''OK''\<rparr>"

text \<open>Every outbound request is rejected.\<close>

definition offline :: network where
  "offline n r = Inl (Error ''connection refused'')"

text \<open>The first outbound request is answered 404, the second is rejected.\<close>

definition fallback_unreachable :: network where
  "fallback_unreachable n r =
     (if n = 0 then Inr not_found_response else Inl (Error ''connection refused''))"

text \<open>The first outbound request is answered 404, the second 200.\<close>

definition fallback_hit :: network where
  "fallback_hit n r = (if n = 0 then Inr not_found_response else Inr image_response)"

text \<open>Every outbound request is answered 404.\<close>

definition fallback_miss :: network where
  "fallback_miss n r = Inr not_found_response"

section \<open>Properties\<close>

subsection \<open>Strings and the configured base URL\<close>

lemma startsWith_Nil [simp]: "startsWith s []"
  by (simp add: startsWith_def)

lemma startsWith_Nil_Cons [simp]: "\<not> startsWith [] (c # p)"
  by (simp add: startsWith_def)

lemma startsWith_Cons [simp]: "startsWith (d # s) (c # p) = (d = c \<and> startsWith s p)"
  by (auto simp: startsWith_def)

lemma startsWith_append: "startsWith (p @ s) p"
  by (simp add: startsWith_def)

lemma endsWith_slash: "endsWith s ''/'' \<longleftrightarrow> s \<noteq> [] \<and> last s = CHR ''/''"
proof (cases s rule: rev_cases)
  case Nil
  then show ?thesis by (simp add: endsWith_def)
next
  case (snoc ys y)
  then show ?thesis by (auto simp: endsWith_def suffix_def)
qed

lemma getBaseUrl_eq:
  "getBaseUrl = Some ''https://cdn.jsdelivr.net/gh/crabvn/uniquepetswiki-uploads@main''"
  by (simp add: getBaseUrl_def js_or_def BASE_URLS_def HOSTING_METHOD_def GITHUB_USERNAME_def
        GITHUB_REPO_def GITHUB_BRANCH_def)

lemma getGitHubPath_prefix: "getGitHubPath (''/uploads/'' @ rest) = rest"
  by (simp add: getGitHubPath_def)

subsection \<open>What the URL parser returns\<close>

lemma pathname_of_clean: "c \<in> set (pathname_of r) \<Longrightarrow> c \<noteq> CHR ''?'' \<and> c \<noteq> CHR ''#''"
  by (auto simp: pathname_of_def Let_def split: if_splits dest: set_takeWhileD)

lemma query_of_clean: "query_of r = Some q \<Longrightarrow> CHR ''#'' \<notin> set q"
  by (auto simp: query_of_def Let_def split: if_splits dest: set_takeWhileD)

lemma new_URL_parts:
  assumes "new_URL s = Inr u"
  obtains r where "pathname u = pathname_of r" and "query u = query_of r"
proof -
  obtain sch rest where "parse_after_scheme sch rest = Inr u"
    using assms by (auto simp: new_URL_def split: if_splits)
  then have "pathname u = pathname_of (dropWhile (\<lambda>c. c \<notin> set ''/?#'') rest)"
    and "query u = query_of (dropWhile (\<lambda>c. c \<notin> set ''/?#'') rest)"
    by (auto simp: parse_after_scheme_def Let_def split: if_splits)
  then show ?thesis using that by blast
qed

lemma pathname_clean:
  assumes "new_URL s = Inr u"
  shows "\<forall>c \<in> set (pathname u). c \<noteq> CHR ''?'' \<and> c \<noteq> CHR ''#''"
  using new_URL_parts [OF assms] pathname_of_clean by metis

lemma search_clean:
  assumes "new_URL s = Inr u"
  shows "CHR ''#'' \<notin> set (search u)"
proof -
  obtain r where "query u = query_of r"
    using new_URL_parts [OF assms] by blast
  then show ?thesis
    using query_of_clean by (auto simp: search_def split: option.splits)
qed

lemma search_form: "search u = [] \<or> (\<exists>q. q \<noteq> [] \<and> search u = CHR ''?'' # q)"
  by (simp add: search_def split: option.splits)

lemma toString_set_search:
  assumes "v = [] \<or> (\<exists>q. q \<noteq> [] \<and> v = CHR ''?'' # q)"
  shows "toString (set_search t v) =
         origin t @ pathname t @ v @ (case fragment t of None \<Rightarrow> [] | Some f \<Rightarrow> ''#'' @ f)"
  using assms by (auto simp: toString_def set_search_def)

lemma rest_clean:
  assumes "\<forall>c \<in> set r. c \<noteq> CHR ''?'' \<and> c \<noteq> CHR ''#''" and "r \<noteq> []"
  shows "pathname_of r = r" and "query_of r = None" and "fragment_of r = None"
proof -
  have t: "takeWhile (\<lambda>c. c \<notin> set ''?#'') r = r"
    using assms(1) by simp
  have d: "dropWhile (\<lambda>c. c \<notin> set ''?#'') r = []"
    using assms(1) by simp
  have f: "dropWhile (\<lambda>c. c \<noteq> CHR ''#'') r = []"
    using assms(1) by simp
  show "pathname_of r = r" unfolding pathname_of_def Let_def t using assms(2) by simp
  show "query_of r = None" unfolding query_of_def Let_def d by simp
  show "fragment_of r = None" unfolding fragment_of_def Let_def f by simp
qed

lemma rest_query:
  assumes "\<forall>c \<in> set r. c \<noteq> CHR ''?'' \<and> c \<noteq> CHR ''#''" and "r \<noteq> []"
    and "CHR ''#'' \<notin> set q"
  shows "pathname_of (r @ CHR ''?'' # q) = r" and "query_of (r @ CHR ''?'' # q) = Some q"
    and "fragment_of (r @ CHR ''?'' # q) = None"
proof -
  have t: "takeWhile (\<lambda>c. c \<notin> set ''?#'') (r @ CHR ''?'' # q) = r"
    using assms(1) by (simp add: takeWhile_append2)
  have d: "dropWhile (\<lambda>c. c \<notin> set ''?#'') (r @ CHR ''?'' # q) = CHR ''?'' # q"
    using assms(1) by (simp add: dropWhile_append2)
  have tq: "takeWhile (\<lambda>c. c \<noteq> CHR ''#'') q = q"
    using assms(3) by auto
  have f: "dropWhile (\<lambda>c. c \<noteq> CHR ''#'') (r @ CHR ''?'' # q) = []"
    using assms(1,3) by auto
  show "pathname_of (r @ CHR ''?'' # q) = r"
    unfolding pathname_of_def Let_def t using assms(2) by simp
  show "query_of (r @ CHR ''?'' # q) = Some q"
    unfolding query_of_def Let_def d using tq by simp
  show "fragment_of (r @ CHR ''?'' # q) = None"
    unfolding fragment_of_def Let_def f by simp
qed


lemma parse_base:
  assumes "\<forall>c \<in> set p. c \<noteq> CHR ''?'' \<and> c \<noteq> CHR ''#''"
  shows "new_URL (''https://cdn.jsdelivr.net/gh/crabvn/uniquepetswiki-uploads@main/'' @ p) =
         Inr \<lparr>origin = ''https://cdn.jsdelivr.net'',
              pathname = ''/gh/crabvn/uniquepetswiki-uploads@main/'' @ p,
              query = None, fragment = None\<rparr>"
proof -
  let ?r = "''/gh/crabvn/uniquepetswiki-uploads@main/'' @ p"
  have c: "\<forall>c \<in> set ?r. c \<noteq> CHR ''?'' \<and> c \<noteq> CHR ''#''"
    using assms by simp
  have n: "?r \<noteq> []" by simp
  have "new_URL (''https://cdn.jsdelivr.net/gh/crabvn/uniquepetswiki-uploads@main/'' @ p)
        = parse_after_scheme ''https://'' (''cdn.jsdelivr.net'' @ ?r)"
    by (simp add: new_URL_def)
  also have "\<dots> = Inr \<lparr>origin = ''https://cdn.jsdelivr.net'', pathname = pathname_of ?r,
              query = query_of ?r, fragment = fragment_of ?r\<rparr>"
    by (simp add: parse_after_scheme_def Let_def)
  finally show ?thesis
    unfolding rest_clean [OF c n] .
qed

lemma parse_base_query:
  assumes "\<forall>c \<in> set p. c \<noteq> CHR ''?'' \<and> c \<noteq> CHR ''#''" and "CHR ''#'' \<notin> set q"
  shows "new_URL (''https://cdn.jsdelivr.net/gh/crabvn/uniquepetswiki-uploads@main/'' @ p
                   @ CHR ''?'' # q) =
         Inr \<lparr>origin = ''https://cdn.jsdelivr.net'',
              pathname = ''/gh/crabvn/uniquepetswiki-uploads@main/'' @ p,
              query = Some q, fragment = None\<rparr>"
proof -
  let ?r = "''/gh/crabvn/uniquepetswiki-uploads@main/'' @ p"
  have c: "\<forall>c \<in> set ?r. c \<noteq> CHR ''?'' \<and> c \<noteq> CHR ''#''"
    using assms by simp
  have n: "?r \<noteq> []" by simp
  have "new_URL (''https://cdn.jsdelivr.net/gh/crabvn/uniquepetswiki-uploads@main/'' @ p
                   @ CHR ''?'' # q)
        = parse_after_scheme ''https://'' (''cdn.jsdelivr.net'' @ ?r @ CHR ''?'' # q)"
    by (simp add: new_URL_def)
  also have "\<dots> = Inr \<lparr>origin = ''https://cdn.jsdelivr.net'',
              pathname = pathname_of (?r @ CHR ''?'' # q),
              query = query_of (?r @ CHR ''?'' # q),
              fragment = fragment_of (?r @ CHR ''?'' # q)\<rparr>"
    by (simp add: parse_after_scheme_def Let_def)
  finally show ?thesis
    unfolding rest_query [OF c n assms(2)] .
qed

text \<open>
  An outbound URL made of the base, a path free of \<open>?\<close> and \<open>#\<close>, and the \<open>search\<close> of a
  parsed URL has that same \<open>search\<close> when it is parsed again.
\<close>

lemma reparse_search:
  assumes "\<forall>c \<in> set p. c \<noteq> CHR ''?'' \<and> c \<noteq> CHR ''#''" and "new_URL s = Inr u"
  shows "\<exists>t. new_URL (''https://cdn.jsdelivr.net/gh/crabvn/uniquepetswiki-uploads@main/'' @ p
                        @ search u) = Inr t \<and> search t = search u"
proof -
  consider "search u = []" | q where "q \<noteq> []" and "search u = CHR ''?'' # q"
    using search_form by blast
  then show ?thesis
  proof cases
    case 1
    then show ?thesis using parse_base [OF assms(1)] by (simp add: search_def)
  next
    case 2
    have "CHR ''#'' \<notin> set q"
      using search_clean [OF assms(2)] 2 by simp
    from parse_base_query [OF assms(1) this] show ?thesis
      using 2 by (simp add: search_def)
  qed
qed

subsection \<open>The URLs and requests the handler builds\<close>

lemma targetUrlString_base:
  "targetUrlString ''https://cdn.jsdelivr.net/gh/crabvn/uniquepetswiki-uploads@main'' g =
   ''https://cdn.jsdelivr.net/gh/crabvn/uniquepetswiki-uploads@main/''
     @ (if startsWith g ''/'' then drop 1 g else g)"
  by (simp add: targetUrlString_def endsWith_slash substring_def Let_def)

lemma altUrlString_base:
  "altUrlString ''https://cdn.jsdelivr.net/gh/crabvn/uniquepetswiki-uploads@main'' p =
   ''https://cdn.jsdelivr.net/gh/crabvn/uniquepetswiki-uploads@main/wp-content'' @ p"
  by (simp add: altUrlString_def endsWith_slash substring_def Let_def)

lemma targetUrl_base:
  assumes "\<forall>c \<in> set g. c \<noteq> CHR ''?'' \<and> c \<noteq> CHR ''#''"
    and "v = [] \<or> (\<exists>q. q \<noteq> [] \<and> v = CHR ''?'' # q)"
  shows "targetUrl ''https://cdn.jsdelivr.net/gh/crabvn/uniquepetswiki-uploads@main'' g v =
         Inr (''https://cdn.jsdelivr.net/gh/crabvn/uniquepetswiki-uploads@main/''
               @ (if startsWith g ''/'' then drop 1 g else g) @ v)"
proof -
  let ?p = "if startsWith g ''/'' then drop 1 g else g"
  have "\<forall>c \<in> set ?p. c \<noteq> CHR ''?'' \<and> c \<noteq> CHR ''#''"
    using assms(1) by (auto dest: in_set_dropD)
  from parse_base [OF this] show ?thesis
    unfolding targetUrl_def targetUrlString_base
    by (simp add: toString_set_search [OF assms(2)])
qed

lemma altUrl_base:
  assumes "\<forall>c \<in> set p. c \<noteq> CHR ''?'' \<and> c \<noteq> CHR ''#''"
    and "v = [] \<or> (\<exists>q. q \<noteq> [] \<and> v = CHR ''?'' # q)"
  shows "altUrl ''https://cdn.jsdelivr.net/gh/crabvn/uniquepetswiki-uploads@main'' p v =
         Inr (''https://cdn.jsdelivr.net/gh/crabvn/uniquepetswiki-uploads@main/wp-content''
               @ p @ v)"
proof -
  have "\<forall>c \<in> set (''wp-content'' @ p). c \<noteq> CHR ''?'' \<and> c \<noteq> CHR ''#''"
    using assms(1) by simp
  from parse_base [OF this] show ?thesis
    unfolding altUrl_def altUrlString_base
    by (simp add: toString_set_search [OF assms(2)])
qed

text \<open>
  Under the prefix, the handler is the \<open>try\<close> block run on the primary request, followed by
  the \<open>catch\<close> clause.
\<close>

lemma fetch_under_prefix:
  assumes "new_URL (url request) = Inr u" and "pathname u = ''/uploads/'' @ rest"
  shows "fetch net request =
         (case try_block net request u
                 ''https://cdn.jsdelivr.net/gh/crabvn/uniquepetswiki-uploads@main''
                 (newRequest request
                    (''https://cdn.jsdelivr.net/gh/crabvn/uniquepetswiki-uploads@main/''
                      @ (if startsWith rest ''/'' then drop 1 rest else rest) @ search u)) of
            (Inl e, out) \<Rightarrow>
              (Inr \<lparr>headers = [], body = Some (''Error fetching from GitHub: '' @ message e),
                    status = 500, statusText = []\<rparr>, out)
          | (Inr r, out) \<Rightarrow> (Inr r, out))"
proof -
  have c: "\<forall>c \<in> set rest. c \<noteq> CHR ''?'' \<and> c \<noteq> CHR ''#''"
    using pathname_clean [OF assms(1)] assms(2) by simp
  have p: "startsWith (pathname u) ''/uploads/''"
    using assms(2) by simp
  have g: "getGitHubPath (pathname u) = rest"
    unfolding assms(2) by (rule getGitHubPath_prefix)
  show ?thesis
    unfolding fetch_def
    by (simp add: assms(1) p g getBaseUrl_eq targetUrl_base [OF c search_form])
qed

lemma try_block_base:
  assumes "new_URL s = Inr u"
  shows "try_block net request u
           ''https://cdn.jsdelivr.net/gh/crabvn/uniquepetswiki-uploads@main'' req =
         (case net 0 req of
            Inl e \<Rightarrow> (Inl e, [req])
          | Inr response \<Rightarrow>
              if status response = 404 then
                (case net 1 (altRequest request
                       (''https://cdn.jsdelivr.net/gh/crabvn/uniquepetswiki-uploads@main/wp-content''
                         @ pathname u @ search u)) of
                   Inl e \<Rightarrow> (Inl e, [req, altRequest request
                       (''https://cdn.jsdelivr.net/gh/crabvn/uniquepetswiki-uploads@main/wp-content''
                         @ pathname u @ search u)])
                 | Inr altResponse \<Rightarrow>
                     if status altResponse = 200
                     then (Inr (relay altResponse), [req, altRequest request
                       (''https://cdn.jsdelivr.net/gh/crabvn/uniquepetswiki-uploads@main/wp-content''
                         @ pathname u @ search u)])
                     else (Inr (relay response), [req, altRequest request
                       (''https://cdn.jsdelivr.net/gh/crabvn/uniquepetswiki-uploads@main/wp-content''
                         @ pathname u @ search u)]))
              else (Inr (relay response), [req]))"
  unfolding try_block_def
  by (auto simp: altUrl_base [OF pathname_clean [OF assms] search_form] split: sum.splits)

text \<open>The two lemmas combined, with the path written as \<open>/uploads/\<close> followed by the rest.\<close>

lemma fetch_cases:
  assumes "new_URL (url request) = Inr u" and "pathname u = ''/uploads/'' @ rest"
  shows "fetch net request =
         (case net 0 (newRequest request
                 (''https://cdn.jsdelivr.net/gh/crabvn/uniquepetswiki-uploads@main/''
                   @ (if startsWith rest ''/'' then drop 1 rest else rest) @ search u)) of
            Inl e \<Rightarrow>
              (Inr \<lparr>headers = [], body = Some (''Error fetching from GitHub: '' @ message e),
                    status = 500, statusText = []\<rparr>,
               [newRequest request
                 (''https://cdn.jsdelivr.net/gh/crabvn/uniquepetswiki-uploads@main/''
                   @ (if startsWith rest ''/'' then drop 1 rest else rest) @ search u)])
          | Inr response \<Rightarrow>
              if status response = 404 then
                (case net 1 (altRequest request
                   (''https://cdn.jsdelivr.net/gh/crabvn/uniquepetswiki-uploads@main/wp-content/uploads/''
                     @ rest @ search u)) of
                   Inl e \<Rightarrow>
                     (Inr \<lparr>headers = [],
                           body = Some (''Error fetching from GitHub: '' @ message e),
                           status = 500, statusText = []\<rparr>,
                      [newRequest request
                        (''https://cdn.jsdelivr.net/gh/crabvn/uniquepetswiki-uploads@main/''
                          @ (if startsWith rest ''/'' then drop 1 rest else rest) @ search u),
                       altRequest request
                        (''https://cdn.jsdelivr.net/gh/crabvn/uniquepetswiki-uploads@main/wp-content/uploads/''
                          @ rest @ search u)])
                 | Inr altResponse \<Rightarrow>
                     (Inr (relay (if status altResponse = 200 then altResponse else response)),
                      [newRequest request
                        (''https://cdn.jsdelivr.net/gh/crabvn/uniquepetswiki-uploads@main/''
                          @ (if startsWith rest ''/'' then drop 1 rest else rest) @ search u),
                       altRequest request
                        (''https://cdn.jsdelivr.net/gh/crabvn/uniquepetswiki-uploads@main/wp-content/uploads/''
                          @ rest @ search u)]))
              else (Inr (relay response),
                    [newRequest request
                      (''https://cdn.jsdelivr.net/gh/crabvn/uniquepetswiki-uploads@main/''
                        @ (if startsWith rest ''/'' then drop 1 rest else rest) @ search u)]))"
proof -
  have a: "''https://cdn.jsdelivr.net/gh/crabvn/uniquepetswiki-uploads@main/wp-content''
             @ pathname u @ search u
           = ''https://cdn.jsdelivr.net/gh/crabvn/uniquepetswiki-uploads@main/wp-content/uploads/''
             @ rest @ search u"
    by (simp add: assms(2))
  show ?thesis
    unfolding fetch_under_prefix [OF assms] try_block_base [OF assms(1)] a
    by (simp split: sum.splits)
qed

subsection \<open>Header objects\<close>




subsection \<open>The example requests\<close>

lemma parse_index_request:
  "new_URL (url index_request) =
     Inr \<lparr>origin = ''https://media.uniquepetswiki.com'', pathname = ''/index.html'',
          query = None, fragment = None\<rparr>"
  by (simp add: index_request_def new_URL_def parse_after_scheme_def pathname_of_def
        query_of_def fragment_of_def Let_def)

lemma parse_uploads_request:
  "new_URL (url uploads_request) =
     Inr \<lparr>origin = ''https://media.uniquepetswiki.com'', pathname = ''/uploads/2020/01/a.jpg'',
          query = Some ''v=2'', fragment = None\<rparr>"
  by (simp add: uploads_request_def new_URL_def parse_after_scheme_def pathname_of_def
        query_of_def fragment_of_def Let_def)

lemma fetch_uploads_request:
  "fetch net uploads_request =
     (case try_block net uploads_request
             \<lparr>origin = ''https://media.uniquepetswiki.com'',
              pathname = ''/uploads/2020/01/a.jpg'', query = Some ''v=2'', fragment = None\<rparr>
             ''https://cdn.jsdelivr.net/gh/crabvn/uniquepetswiki-uploads@main''
             (newRequest uploads_request
               ''https://cdn.jsdelivr.net/gh/crabvn/uniquepetswiki-uploads@main/2020/01/a.jpg?v=2'') of
        (Inl e, out) \<Rightarrow>
          (Inr \<lparr>headers = [], body = Some (''Error fetching from GitHub: '' @ message e),
                status = 500, statusText = []\<rparr>, out)
      | (Inr r, out) \<Rightarrow> (Inr r, out))"
  using fetch_under_prefix [OF parse_uploads_request, of "''2020/01/a.jpg''" net]
  by (simp add: search_def)

subsection \<open>Requests outside the prefix\<close>

text \<open>
  Claim C1 says that a request whose path does not start with \<open>/uploads/\<close> is answered
  with status 404 and an empty body. The body is not empty: for
  \<open>https://media.uniquepetswiki.com/index.html\<close> the handler returns the text
  \<open>Not Found\<close>, which is neither the empty string nor a null body.
\<close>

theorem outside_prefix_body_counterexample:
  "fst (fetch offline index_request) =
     Inr \<lparr>headers = [], body = Some ''Not Found'', status = 404, statusText = []\<rparr>
   \<and> fst (fetch offline index_request) \<noteq>
     Inr \<lparr>headers = [], body = Some [], status = 404, statusText = []\<rparr>
   \<and> fst (fetch offline index_request) \<noteq>
     Inr \<lparr>headers = [], body = None, status = 404, statusText = []\<rparr>"
  by (simp add: fetch_def parse_index_request)

text \<open>
  Claim C1, amended. For every request whose URL path does not start with \<open>/uploads/\<close>,
  whatever its method, headers and body and whatever the network would answer, the
  handler returns status 404 with the body \<open>Not Found\<close>, no headers of its own and an
  empty status text, and issues no outbound request.
\<close>

theorem outside_prefix_not_found:
  assumes "new_URL (url request) = Inr u" and "\<not> startsWith (pathname u) ''/uploads/''"
  shows "fetch net request =
         (Inr \<lparr>headers = [], body = Some ''Not Found'', status = 404, statusText = []\<rparr>, [])"
  using assms by (simp add: fetch_def)

theorem outside_prefix_not_found_witness:
  "new_URL (url index_request) =
     Inr \<lparr>origin = ''https://media.uniquepetswiki.com'', pathname = ''/index.html'',
          query = None, fragment = None\<rparr>
   \<and> \<not> startsWith ''/index.html'' ''/uploads/''
   \<and> fetch fallback_hit index_request =
       (Inr \<lparr>headers = [], body = Some ''Not Found'', status = 404, statusText = []\<rparr>, [])"
proof -
  have n: "\<not> startsWith (pathname \<lparr>origin = ''https://media.uniquepetswiki.com'',
             pathname = ''/index.html'', query = None, fragment = None\<rparr>) ''/uploads/''"
    by simp
  from outside_prefix_not_found [OF parse_index_request n, of fallback_hit]
  show ?thesis using parse_index_request by simp
qed

subsection \<open>Transport errors\<close>

text \<open>
  Claim C5. For every request under the prefix, if the primary fetch is rejected with an
  error whose message is \<open>m\<close>, the handler returns status 500 with the plain-text body
  \<open>Error fetching from GitHub: m\<close>, which contains \<open>m\<close> literally, and makes no second
  attempt.
\<close>

theorem primary_error_500:
  assumes "new_URL (url request) = Inr u" and "pathname u = ''/uploads/'' @ rest"
    and "net 0 (newRequest request
            (''https://cdn.jsdelivr.net/gh/crabvn/uniquepetswiki-uploads@main/''
              @ (if startsWith rest ''/'' then drop 1 rest else rest) @ search u)) = Inl e"
  shows "fst (fetch net request) =
           Inr \<lparr>headers = [], body = Some (''Error fetching from GitHub: '' @ message e),
                status = 500, statusText = []\<rparr>
         \<and> length (snd (fetch net request)) = 1"
  unfolding fetch_cases [OF assms(1,2)] assms(3) by simp

theorem primary_error_500_witness:
  "new_URL (url uploads_request) =
     Inr \<lparr>origin = ''https://media.uniquepetswiki.com'', pathname = ''/uploads/2020/01/a.jpg'',
          query = Some ''v=2'', fragment = None\<rparr>
   \<and> offline 0 (newRequest uploads_request
        ''https://cdn.jsdelivr.net/gh/crabvn/uniquepetswiki-uploads@main/2020/01/a.jpg?v=2'')
       = Inl (Error ''connection refused'')
   \<and> fst (fetch offline uploads_request) =
       Inr \<lparr>headers = [], body = Some ''Error fetching from GitHub: connection refused'',
            status = 500, statusText = []\<rparr>
   \<and> length (snd (fetch offline uploads_request)) = 1"
  using primary_error_500 [where request = uploads_request and net = offline
      and rest = "''2020/01/a.jpg''" and e = "Error ''connection refused''"
      and u = "\<lparr>origin = ''https://media.uniquepetswiki.com'',
                pathname = ''/uploads/2020/01/a.jpg'', query = Some ''v=2'',
                fragment = None\<rparr>"]
    parse_uploads_request
  by (simp add: offline_def)

text \<open>
  Claim C2 says that an error raised by the fallback fetch is not caught and leaves the
  handler as an unhandled failure. The fallback fetch sits inside the same \<open>try\<close> block as
  the primary one: when the primary request is answered 404 and the fallback request is
  rejected with \<open>connection refused\<close>, the handler returns a 500 response and raises
  nothing.
\<close>

theorem fallback_error_counterexample:
  "fst (fetch fallback_unreachable uploads_request) =
     Inr \<lparr>headers = [], body = Some ''Error fetching from GitHub: connection refused'',
          status = 500, statusText = []\<rparr>
   \<and> fst (fetch fallback_unreachable uploads_request) \<noteq> Inl (Error ''connection refused'')
   \<and> length (snd (fetch fallback_unreachable uploads_request)) = 2"
  unfolding fetch_uploads_request try_block_base [OF parse_uploads_request]
  by (simp add: fallback_unreachable_def not_found_response_def)

text \<open>
  Claim C2, amended. For every request under the prefix, if the primary fetch returns
  status 404 and the fallback fetch is rejected with an error whose message is \<open>m\<close>, the
  error is caught by the handler that also covers the primary fetch: the handler returns
  status 500 with the plain-text body \<open>Error fetching from GitHub: m\<close>.
\<close>

theorem fallback_error_500:
  assumes "new_URL (url request) = Inr u" and "pathname u = ''/uploads/'' @ rest"
    and "net 0 (newRequest request
            (''https://cdn.jsdelivr.net/gh/crabvn/uniquepetswiki-uploads@main/''
              @ (if startsWith rest ''/'' then drop 1 rest else rest) @ search u))
         = Inr response"
    and "status response = 404"
    and "net 1 (altRequest request
            (''https://cdn.jsdelivr.net/gh/crabvn/uniquepetswiki-uploads@main/wp-content/uploads/''
              @ rest @ search u)) = Inl e"
  shows "fst (fetch net request) =
           Inr \<lparr>headers = [], body = Some (''Error fetching from GitHub: '' @ message e),
                status = 500, statusText = []\<rparr>"
  unfolding fetch_cases [OF assms(1,2)] assms(3) assms(5) using assms(4) by simp

theorem fallback_error_500_witness:
  "new_URL (url uploads_request) =
     Inr \<lparr>origin = ''https://media.uniquepetswiki.com'', pathname = ''/uploads/2020/01/a.jpg'',
          query = Some ''v=2'', fragment = None\<rparr>
   \<and> fallback_unreachable 0 (newRequest uploads_request
        ''https://cdn.jsdelivr.net/gh/crabvn/uniquepetswiki-uploads@main/2020/01/a.jpg?v=2'')
       = Inr not_found_response
   \<and> status not_found_response = 404
   \<and> fallback_unreachable 1 (altRequest uploads_request
        ''https://cdn.jsdelivr.net/gh/crabvn/uniquepetswiki-uploads@main/wp-content/uploads/2020/01/a.jpg?v=2'')
       = Inl (Error ''connection refused'')
   \<and> fst (fetch fallback_unreachable uploads_request) =
       Inr \<lparr>headers = [], body = Some ''Error fetching from GitHub: connection refused'',
            status = 500, statusText = []\<rparr>"
  using fallback_error_500 [where request = uploads_request and net = fallback_unreachable
      and rest = "''2020/01/a.jpg''" and e = "Error ''connection refused''"
      and response = not_found_response
      and u = "\<lparr>origin = ''https://media.uniquepetswiki.com'',
                pathname = ''/uploads/2020/01/a.jpg'', query = Some ''v=2'',
                fragment = None\<rparr>"]
    parse_uploads_request
  by (simp add: fallback_unreachable_def not_found_response_def)

subsection \<open>The fallback attempt\<close>





subsection \<open>Path translation and the join with the base URL\<close>

text \<open>
  Claim C7. For every path of the form \<open>/uploads/\<close> followed by \<open>rest\<close>, the derived
  repository path is \<open>rest\<close> exactly, whatever \<open>rest\<close> is: empty, percent-encoded, with
  \<open>..\<close> segments or with a leading slash. The match is literal: a path that does not start
  with \<open>/uploads/\<close> in exactly this spelling, such as \<open>/Uploads/a.jpg\<close>, is left as it is.
\<close>

theorem getGitHubPath_strips_prefix:
  "getGitHubPath (''/uploads/'' @ rest) = rest
   \<and> (\<not> startsWith p ''/uploads/'' \<longrightarrow> getGitHubPath p = p)
   \<and> \<not> startsWith ''/Uploads/a.jpg'' ''/uploads/''"
  by (simp add: getGitHubPath_def)

theorem getGitHubPath_strips_prefix_witness:
  "getGitHubPath ''/uploads/a%20b/../c.jpg'' = ''a%20b/../c.jpg''
   \<and> getGitHubPath ''/uploads/'' = []
   \<and> getGitHubPath ''/uploads//a.jpg'' = ''/a.jpg''
   \<and> \<not> startsWith ''/Uploads/a.jpg'' ''/uploads/''
   \<and> getGitHubPath ''/Uploads/a.jpg'' = ''/Uploads/a.jpg''"
  using getGitHubPath_strips_prefix [of "''a%20b/../c.jpg''" "''/Uploads/a.jpg''"]
    getGitHubPath_strips_prefix [of "[]" "''/Uploads/a.jpg''"]
    getGitHubPath_strips_prefix [of "''/a.jpg''" "''/Uploads/a.jpg''"]
  by simp

text \<open>
  Claim C6. The target URL is the base URL and the relative path joined by exactly one
  slash, whether or not the base ends with a slash and whether or not the path starts with
  one: for a base \<open>b\<close> without a trailing slash and a path \<open>r\<close> without a leading slash, all
  four combinations give \<open>b/r\<close>. In general the join takes one trailing slash off the base
  and one leading slash off the path and puts one slash between them. With base
  \<open>https://cdn.example/gh/user/repo@main\<close> and path \<open>2020/01/img.jpg\<close> the target URL is
  \<open>https://cdn.example/gh/user/repo@main/2020/01/img.jpg\<close>, and the same base with a
  trailing slash gives the same URL, without a double slash.
\<close>

theorem target_join_one_slash:
  assumes "\<not> endsWith b ''/''" and "\<not> startsWith r ''/''"
  shows "targetUrlString b r = b @ ''/'' @ r
         \<and> targetUrlString (b @ ''/'') r = b @ ''/'' @ r
         \<and> targetUrlString b (''/'' @ r) = b @ ''/'' @ r
         \<and> targetUrlString (b @ ''/'') (''/'' @ r) = b @ ''/'' @ r
         \<and> (\<forall>b' r'. targetUrlString b' r' =
               (if endsWith b' ''/'' then butlast b' else b') @ ''/''
                 @ (if startsWith r' ''/'' then drop 1 r' else r'))
         \<and> targetUrl ''https://cdn.example/gh/user/repo@main'' ''2020/01/img.jpg'' []
             = Inr ''https://cdn.example/gh/user/repo@main/2020/01/img.jpg''
         \<and> targetUrl ''https://cdn.example/gh/user/repo@main/'' ''2020/01/img.jpg'' []
             = Inr ''https://cdn.example/gh/user/repo@main/2020/01/img.jpg''"
proof -
  have j: "targetUrlString b r = b @ ''/'' @ r"
    "targetUrlString (b @ ''/'') r = b @ ''/'' @ r"
    "targetUrlString b (''/'' @ r) = b @ ''/'' @ r"
    "targetUrlString (b @ ''/'') (''/'' @ r) = b @ ''/'' @ r"
    using assms by (simp_all add: targetUrlString_def Let_def substring_def endsWith_slash)
  have g: "targetUrlString b' r' =
             (if endsWith b' ''/'' then butlast b' else b') @ ''/''
               @ (if startsWith r' ''/'' then drop 1 r' else r')" for b' r'
  proof (cases "endsWith b' ''/''")
    case True
    then have "butlast b' @ ''/'' = b'"
      using append_butlast_last_id [of b'] by (simp add: endsWith_slash)
    then have "b' @ x = butlast b' @ ''/'' @ x" for x
      by (metis append_assoc)
    with True show ?thesis
      by (simp add: targetUrlString_def Let_def substring_def)
  next
    case False
    then show ?thesis
      by (simp add: targetUrlString_def Let_def substring_def)
  qed
  have s: "targetUrlString ''https://cdn.example/gh/user/repo@main'' ''2020/01/img.jpg''
             = ''https://cdn.example/gh/user/repo@main/2020/01/img.jpg''"
    "targetUrlString ''https://cdn.example/gh/user/repo@main/'' ''2020/01/img.jpg''
             = ''https://cdn.example/gh/user/repo@main/2020/01/img.jpg''"
    by (simp_all add: targetUrlString_def Let_def substring_def endsWith_slash)
  have p: "new_URL ''https://cdn.example/gh/user/repo@main/2020/01/img.jpg''
           = Inr \<lparr>origin = ''https://cdn.example'',
                  pathname = ''/gh/user/repo@main/2020/01/img.jpg'',
                  query = None, fragment = None\<rparr>"
    by (simp add: new_URL_def parse_after_scheme_def pathname_of_def query_of_def
          fragment_of_def Let_def)
  have t: "targetUrl ''https://cdn.example/gh/user/repo@main'' ''2020/01/img.jpg'' []
             = Inr ''https://cdn.example/gh/user/repo@main/2020/01/img.jpg''"
    "targetUrl ''https://cdn.example/gh/user/repo@main/'' ''2020/01/img.jpg'' []
             = Inr ''https://cdn.example/gh/user/repo@main/2020/01/img.jpg''"
    unfolding targetUrl_def s p by (simp_all add: set_search_def toString_def)
  show ?thesis
    using j g t by (simp only: simp_thms)
qed

theorem target_join_one_slash_witness:
  "\<not> endsWith ''https://cdn.example/gh/user/repo@main'' ''/''
   \<and> \<not> startsWith ''2020/01/img.jpg'' ''/''
   \<and> targetUrlString ''https://cdn.example/gh/user/repo@main'' ''2020/01/img.jpg''
       = ''https://cdn.example/gh/user/repo@main/2020/01/img.jpg''
   \<and> targetUrlString ''https://cdn.example/gh/user/repo@main/'' ''2020/01/img.jpg''
       = ''https://cdn.example/gh/user/repo@main/2020/01/img.jpg''
   \<and> targetUrlString ''https://cdn.example/gh/user/repo@main'' ''/2020/01/img.jpg''
       = ''https://cdn.example/gh/user/repo@main/2020/01/img.jpg''
   \<and> targetUrlString ''https://cdn.example/gh/user/repo@main/'' ''/2020/01/img.jpg''
       = ''https://cdn.example/gh/user/repo@main/2020/01/img.jpg''"
proof -
  have e: "\<not> endsWith ''https://cdn.example/gh/user/repo@main'' ''/''"
    by (simp add: endsWith_slash)
  have n: "\<not> startsWith ''2020/01/img.jpg'' ''/''"
    by simp
  from target_join_one_slash [OF e n] show ?thesis
    using e n by (simp add: endsWith_slash)
qed

subsection \<open>The outbound URLs\<close>

text \<open>
  Claim C8. For every request under the prefix, the inbound query string is reproduced
  byte for byte on the outbound URLs: the primary URL is the base, the cleaned path and the
  inbound \<open>search\<close>; when the primary fetch returns 404, the fallback URL is the base,
  \<open>/wp-content\<close>, the inbound path and the inbound \<open>search\<close>; and every outbound URL, when
  parsed again, has the inbound \<open>search\<close>.
\<close>

theorem query_on_outbound_urls:
  assumes "new_URL (url request) = Inr u" and "pathname u = ''/uploads/'' @ rest"
  shows "(map url (snd (fetch net request)) =
            [''https://cdn.jsdelivr.net/gh/crabvn/uniquepetswiki-uploads@main/''
               @ (if startsWith rest ''/'' then drop 1 rest else rest) @ search u]
          \<or> map url (snd (fetch net request)) =
            [''https://cdn.jsdelivr.net/gh/crabvn/uniquepetswiki-uploads@main/''
               @ (if startsWith rest ''/'' then drop 1 rest else rest) @ search u,
             ''https://cdn.jsdelivr.net/gh/crabvn/uniquepetswiki-uploads@main/wp-content/uploads/''
               @ rest @ search u])
         \<and> (\<forall>response.
               net 0 (newRequest request
                 (''https://cdn.jsdelivr.net/gh/crabvn/uniquepetswiki-uploads@main/''
                   @ (if startsWith rest ''/'' then drop 1 rest else rest) @ search u))
                 = Inr response \<and> status response = 404 \<longrightarrow>
               map url (snd (fetch net request)) =
                 [''https://cdn.jsdelivr.net/gh/crabvn/uniquepetswiki-uploads@main/''
                    @ (if startsWith rest ''/'' then drop 1 rest else rest) @ search u,
                  ''https://cdn.jsdelivr.net/gh/crabvn/uniquepetswiki-uploads@main/wp-content/uploads/''
                    @ rest @ search u])
         \<and> (\<forall>r \<in> set (snd (fetch net request)).
               \<exists>t. new_URL (url r) = Inr t \<and> search t = search u)"
proof -
  let ?P = "''https://cdn.jsdelivr.net/gh/crabvn/uniquepetswiki-uploads@main/''
              @ (if startsWith rest ''/'' then drop 1 rest else rest) @ search u"
  let ?A = "''https://cdn.jsdelivr.net/gh/crabvn/uniquepetswiki-uploads@main/wp-content/uploads/''
              @ rest @ search u"
  have c: "\<forall>c \<in> set rest. c \<noteq> CHR ''?'' \<and> c \<noteq> CHR ''#''"
    using pathname_clean [OF assms(1)] assms(2) by simp
  have cp: "\<forall>c \<in> set (if startsWith rest ''/'' then drop 1 rest else rest).
              c \<noteq> CHR ''?'' \<and> c \<noteq> CHR ''#''"
    using c by (auto dest: in_set_dropD)
  have ca: "\<forall>c \<in> set (''wp-content/uploads/'' @ rest). c \<noteq> CHR ''?'' \<and> c \<noteq> CHR ''#''"
    using c by simp
  have rp: "\<exists>t. new_URL ?P = Inr t \<and> search t = search u"
    using reparse_search [OF cp assms(1)] by simp
  have ra: "\<exists>t. new_URL ?A = Inr t \<and> search t = search u"
    using reparse_search [OF ca assms(1)] by simp
  have urls: "map url (snd (fetch net request)) = [?P]
              \<or> map url (snd (fetch net request)) = [?P, ?A]"
    unfolding fetch_cases [OF assms]
    by (simp add: newRequest_def altRequest_def split: sum.splits)
  have second: "\<forall>response. net 0 (newRequest request ?P) = Inr response
                  \<and> status response = 404 \<longrightarrow>
                map url (snd (fetch net request)) = [?P, ?A]"
    unfolding fetch_cases [OF assms]
    by (simp add: newRequest_def altRequest_def split: sum.splits)
  have every: "\<forall>r \<in> set (snd (fetch net request)).
                 \<exists>t. new_URL (url r) = Inr t \<and> search t = search u"
  proof
    fix r
    assume "r \<in> set (snd (fetch net request))"
    then have "url r \<in> set (map url (snd (fetch net request)))"
      by simp
    with urls have "url r = ?P \<or> url r = ?A"
      by auto
    then show "\<exists>t. new_URL (url r) = Inr t \<and> search t = search u"
      using rp ra by metis
  qed
  show ?thesis
    using urls second every by blast
qed

theorem query_on_outbound_urls_witness:
  "new_URL (url uploads_request) =
     Inr \<lparr>origin = ''https://media.uniquepetswiki.com'', pathname = ''/uploads/2020/01/a.jpg'',
          query = Some ''v=2'', fragment = None\<rparr>
   \<and> search \<lparr>origin = ''https://media.uniquepetswiki.com'',
              pathname = ''/uploads/2020/01/a.jpg'', query = Some ''v=2'', fragment = None\<rparr>
       = ''?v=2''
   \<and> map url (snd (fetch fallback_miss uploads_request)) =
       [''https://cdn.jsdelivr.net/gh/crabvn/uniquepetswiki-uploads@main/2020/01/a.jpg?v=2'',
        ''https://cdn.jsdelivr.net/gh/crabvn/uniquepetswiki-uploads@main/wp-content/uploads/2020/01/a.jpg?v=2'']"
  using query_on_outbound_urls [where request = uploads_request and net = fallback_miss
      and rest = "''2020/01/a.jpg''"
      and u = "\<lparr>origin = ''https://media.uniquepetswiki.com'',
                pathname = ''/uploads/2020/01/a.jpg'', query = Some ''v=2'',
                fragment = None\<rparr>"]
    parse_uploads_request
  by (simp add: fallback_miss_def not_found_response_def search_def)

text \<open>
  Claim C9. The primary target URL is a function of the configured base URL, the inbound
  path and the inbound query string, and of nothing else: it is the value of \<open>targetUrl\<close> at
  these three, and two requests with the same path and query string are sent to the same
  URL, whatever their methods, headers, bodies and hosts and whatever the network answers.
\<close>

theorem target_url_pure:
  assumes "new_URL (url request) = Inr u" and "new_URL (url request') = Inr u'"
    and "startsWith (pathname u) ''/uploads/''"
    and "pathname u' = pathname u" and "search u' = search u"
  shows "\<exists>h. targetUrl ''https://cdn.jsdelivr.net/gh/crabvn/uniquepetswiki-uploads@main''
               (getGitHubPath (pathname u)) (search u) = Inr h
             \<and> getBaseUrl = Some ''https://cdn.jsdelivr.net/gh/crabvn/uniquepetswiki-uploads@main''
             \<and> map url (take 1 (snd (fetch net request))) = [h]
             \<and> map url (take 1 (snd (fetch net' request'))) = [h]"
proof -
  obtain rest where r: "pathname u = ''/uploads/'' @ rest"
    using assms(3) by (auto simp: startsWith_def prefix_def)
  then have r': "pathname u' = ''/uploads/'' @ rest"
    using assms(4) by simp
  let ?h = "''https://cdn.jsdelivr.net/gh/crabvn/uniquepetswiki-uploads@main/''
              @ (if startsWith rest ''/'' then drop 1 rest else rest) @ search u"
  have c: "\<forall>c \<in> set rest. c \<noteq> CHR ''?'' \<and> c \<noteq> CHR ''#''"
    using pathname_clean [OF assms(1)] r by simp
  have g: "getGitHubPath (pathname u) = rest"
    unfolding r by (rule getGitHubPath_prefix)
  have t: "targetUrl ''https://cdn.jsdelivr.net/gh/crabvn/uniquepetswiki-uploads@main''
             (getGitHubPath (pathname u)) (search u) = Inr ?h"
    unfolding g by (rule targetUrl_base [OF c search_form])
  have a: "map url (take 1 (snd (fetch net request))) = [?h]"
    unfolding fetch_cases [OF assms(1) r]
    by (simp add: newRequest_def split: sum.splits)
  have b: "map url (take 1 (snd (fetch net' request'))) = [?h]"
    unfolding fetch_cases [OF assms(2) r'] assms(5)
    by (simp add: newRequest_def split: sum.splits)
  have "targetUrl ''https://cdn.jsdelivr.net/gh/crabvn/uniquepetswiki-uploads@main''
               (getGitHubPath (pathname u)) (search u) = Inr ?h
             \<and> getBaseUrl = Some ''https://cdn.jsdelivr.net/gh/crabvn/uniquepetswiki-uploads@main''
             \<and> map url (take 1 (snd (fetch net request))) = [?h]
             \<and> map url (take 1 (snd (fetch net' request'))) = [?h]"
    by (simp only: t a b getBaseUrl_eq simp_thms)
  then show ?thesis
    by (rule exI)
qed

theorem target_url_pure_witness:
  "new_URL (url uploads_request) =
     Inr \<lparr>origin = ''https://media.uniquepetswiki.com'', pathname = ''/uploads/2020/01/a.jpg'',
          query = Some ''v=2'', fragment = None\<rparr>
   \<and> new_URL (url (uploads_request\<lparr>headers := [], body := Some ''x'', method := ''POST'',
                      url := ''http://other.example/uploads/2020/01/a.jpg?v=2#top''\<rparr>)) =
     Inr \<lparr>origin = ''http://other.example'', pathname = ''/uploads/2020/01/a.jpg'',
          query = Some ''v=2'', fragment = Some ''top''\<rparr>
   \<and> startsWith ''/uploads/2020/01/a.jpg'' ''/uploads/''
   \<and> targetUrl ''https://cdn.jsdelivr.net/gh/crabvn/uniquepetswiki-uploads@main''
        (getGitHubPath ''/uploads/2020/01/a.jpg'') ''?v=2''
       = Inr ''https://cdn.jsdelivr.net/gh/crabvn/uniquepetswiki-uploads@main/2020/01/a.jpg?v=2''
   \<and> map url (take 1 (snd (fetch offline uploads_request)))
       = [''https://cdn.jsdelivr.net/gh/crabvn/uniquepetswiki-uploads@main/2020/01/a.jpg?v=2'']
   \<and> map url (take 1 (snd (fetch fallback_hit
         (uploads_request\<lparr>headers := [], body := Some ''x'', method := ''POST'',
            url := ''http://other.example/uploads/2020/01/a.jpg?v=2#top''\<rparr>))))
       = [''https://cdn.jsdelivr.net/gh/crabvn/uniquepetswiki-uploads@main/2020/01/a.jpg?v=2'']"
proof -
  let ?u = "\<lparr>origin = ''https://media.uniquepetswiki.com'',
             pathname = ''/uploads/2020/01/a.jpg'', query = Some ''v=2'', fragment = None\<rparr>"
  let ?u' = "\<lparr>origin = ''http://other.example'', pathname = ''/uploads/2020/01/a.jpg'',
              query = Some ''v=2'', fragment = Some ''top''\<rparr>"
  let ?r' = "uploads_request\<lparr>headers := [], body := Some ''x'', method := ''POST'',
               url := ''http://other.example/uploads/2020/01/a.jpg?v=2#top''\<rparr>"
  have p': "new_URL (url ?r') = Inr ?u'"
    by (simp add: new_URL_def parse_after_scheme_def pathname_of_def query_of_def
          fragment_of_def Let_def)
  have s: "startsWith (pathname ?u) ''/uploads/''"
    by simp
  have e: "pathname ?u' = pathname ?u" "search ?u' = search ?u"
    by (simp_all add: search_def)
  have t: "targetUrl ''https://cdn.jsdelivr.net/gh/crabvn/uniquepetswiki-uploads@main''
             (getGitHubPath ''/uploads/2020/01/a.jpg'') ''?v=2''
           = Inr ''https://cdn.jsdelivr.net/gh/crabvn/uniquepetswiki-uploads@main/2020/01/a.jpg?v=2''"
    using targetUrl_base [of "''2020/01/a.jpg''" "''?v=2''"] getGitHubPath_prefix [of "''2020/01/a.jpg''"]
    by simp
  from target_url_pure [OF parse_uploads_request p' s e, of offline fallback_hit]
  show ?thesis
    using parse_uploads_request p' s t by (simp add: search_def)
qed

subsection \<open>Totality\<close>



end
